theory Spec2Isabelle
  imports Main
begin

section \<open>Terminal link handler: local-path patterns\<close>

text \<open>
  The development follows
  \<^verbatim>\<open>src/vs/workbench/parts/terminal/electron-browser/terminalLinkHandler.ts\<close>.

  JavaScript strings are modelled as \<^typ>\<open>string\<close>: a list of code units, here
  restricted to the code units below 256 that \<^typ>\<open>char\<close> holds.
\<close>

abbreviation BSL :: char where
  "BSL \<equiv> CHR 0x5C"

subsection \<open>Regular expressions as the source writes them\<close>

text \<open>
  The source builds its two patterns by concatenating string literals and passing the text
  to \<^verbatim>\<open>new RegExp(...)\<close> without flags. The abstract syntax below covers the
  constructs that occur in these pattern texts.
\<close>

datatype class_item =
    CChar char          \<comment> \<open>a single character, possibly written with an identity escape\<close>
  | CRange char char    \<comment> \<open>\<^verbatim>\<open>a-z\<close>\<close>
  | CSpace              \<comment> \<open>the class escape \<^verbatim>\<open>\s\<close>\<close>

datatype regex =
    Lit char                 \<comment> \<open>a pattern character, or an escaped one (\<^verbatim>\<open>\.\<close>, \<^verbatim>\<open>\/\<close>, \<^verbatim>\<open>\\\<close>)\<close>
  | OneOf "class_item list"  \<comment> \<open>\<^verbatim>\<open>[...]\<close>\<close>
  | NoneOf "class_item list" \<comment> \<open>\<^verbatim>\<open>[^...]\<close>\<close>
  | EndOfInput               \<comment> \<open>the assertion \<^verbatim>\<open>$\<close> (no multiline flag)\<close>
  | Empty                    \<comment> \<open>an empty alternative\<close>
  | Seq regex regex
  | Alt regex regex          \<comment> \<open>\<^verbatim>\<open>r|s\<close>, left alternative tried first\<close>
  | Group regex              \<comment> \<open>capturing parentheses\<close>
  | Opt regex                \<comment> \<open>\<^verbatim>\<open>r?\<close>\<close>
  | Star regex               \<comment> \<open>\<^verbatim>\<open>r*\<close>\<close>
  | Plus regex               \<comment> \<open>\<^verbatim>\<open>r+\<close>\<close>

fun seqs :: "regex list \<Rightarrow> regex" where
  "seqs [] = Empty"
| "seqs [r] = r"
| "seqs (r # rs) = Seq r (seqs rs)"

fun alts :: "regex list \<Rightarrow> regex" where
  "alts [] = Empty"
| "alts [r] = r"
| "alts (r # rs) = Alt r (alts rs)"

text \<open>
  White space as \<^verbatim>\<open>\s\<close> sees it (ECMAScript WhiteSpace and LineTerminator), for
  the code units a \<^typ>\<open>char\<close> can hold: TAB, LF, VT, FF, CR, SP and NBSP.
\<close>

definition isWhiteSpace :: "char \<Rightarrow> bool" where
  "isWhiteSpace c \<longleftrightarrow> c \<in> set [CHR 0x09, CHR 0x0A, CHR 0x0B, CHR 0x0C, CHR 0x0D, CHR 0x20, CHR 0xA0]"

fun item_has :: "class_item \<Rightarrow> char \<Rightarrow> bool" where
  "item_has (CChar c) x = (x = c)"
| "item_has (CRange lo hi) x = ((of_char lo :: nat) \<le> of_char x \<and> (of_char x :: nat) \<le> of_char hi)"
| "item_has CSpace x = isWhiteSpace x"

definition class_has :: "class_item list \<Rightarrow> char \<Rightarrow> bool" where
  "class_has items x = list_ex (\<lambda>i. item_has i x) items"

subsection \<open>Backtracking matcher\<close>

text \<open>
  \<open>weight\<close> orders the recursion of the matcher: \<^verbatim>\<open>r+\<close> runs \<^verbatim>\<open>r\<close> once and
  then behaves as \<^verbatim>\<open>r*\<close>.
\<close>

fun weight :: "regex \<Rightarrow> nat" where
  "weight (Seq r s) = Suc (weight r + weight s)"
| "weight (Alt r s) = Suc (weight r + weight s)"
| "weight (Group r) = Suc (weight r)"
| "weight (Opt r) = Suc (weight r)"
| "weight (Star r) = Suc (weight r)"
| "weight (Plus r) = Suc (Suc (weight r))"
| "weight _ = 0"

text \<open>
  \<open>matches r s\<close> lists, in the order in which the ECMAScript backtracking matcher tries
  them, the remainders of \<open>s\<close> left after \<open>r\<close> has consumed a prefix of \<open>s\<close>. The head
  of the list is what the engine commits to when whatever follows succeeds; the later
  entries are its backtracking points.

  Quantifiers follow the specification's RepeatMatcher. They are greedy. Once the minimum
  number of iterations is reached (at once for \<^verbatim>\<open>?\<close> and \<^verbatim>\<open>*\<close>, after the first
  iteration for \<^verbatim>\<open>+\<close>), an iteration that consumes nothing is rejected. A remainder
  is always a suffix of the input, so "consumed nothing" is "the remainder is not shorter".
\<close>

function matches :: "regex \<Rightarrow> string \<Rightarrow> string list" where
  "matches (Lit c) s = (case s of [] \<Rightarrow> [] | x # t \<Rightarrow> if x = c then [t] else [])"
| "matches (OneOf items) s = (case s of [] \<Rightarrow> [] | x # t \<Rightarrow> if class_has items x then [t] else [])"
| "matches (NoneOf items) s = (case s of [] \<Rightarrow> [] | x # t \<Rightarrow> if class_has items x then [] else [t])"
| "matches EndOfInput s = (if s = [] then [s] else [])"
| "matches Empty s = [s]"
| "matches (Seq r1 r2) s = concat (map (matches r2) (matches r1 s))"
| "matches (Alt r1 r2) s = matches r1 s @ matches r2 s"
| "matches (Group r) s = matches r s"
| "matches (Opt r) s = filter (\<lambda>t. length t < length s) (matches r s) @ [s]"
| "matches (Star r) s =
     concat (map (\<lambda>t. if length t < length s then matches (Star r) t else []) (matches r s)) @ [s]"
| "matches (Plus r) s = concat (map (matches (Star r)) (matches r s))"
  by pat_completeness auto
termination
  by (relation "(\<lambda>(r, s). weight r) <*mlex*> measure (\<lambda>(r, s). length s)")
     (auto simp: wf_mlex mlex_prod_def)

text \<open>
  \<^verbatim>\<open>RegExp.prototype.exec\<close> for a pattern without the global flag: the match is tried
  at index 0, 1, ... up to and including the end of the input, and the first index where
  the matcher succeeds gives the result. The result is the index and the matched text.
\<close>

definition match_here :: "regex \<Rightarrow> string \<Rightarrow> string option" where
  "match_here r s = (case matches r s of [] \<Rightarrow> None | t # _ \<Rightarrow> Some (take (length s - length t) s))"

fun exec_from :: "regex \<Rightarrow> nat \<Rightarrow> string \<Rightarrow> (nat \<times> string) option" where
  "exec_from r i s =
     (case match_here r s of
        Some m \<Rightarrow> Some (i, m)
      | None \<Rightarrow> (case s of [] \<Rightarrow> None | _ # t \<Rightarrow> exec_from r (Suc i) t))"

definition exec :: "regex \<Rightarrow> string \<Rightarrow> (nat \<times> string) option" where
  "exec r s = exec_from r 0 s"

subsection \<open>The two local-path patterns\<close>

text \<open>
  Each constant is given with the source's string literal and the pattern text that the
  literal denotes once the string escapes are read (\<^verbatim>\<open>\\\<close> in a literal is one
  backslash of pattern text).

  \<^verbatim>\<open>pathPrefix = '(\\.\\.?|\\~)'\<close>, pattern text \<^verbatim>\<open>(\.\.?|\~)\<close>.
\<close>

definition pathPrefix :: regex where
  "pathPrefix = Group (alts [seqs [Lit CHR ''.'', Opt (Lit CHR ''.'')], Lit CHR ''~''])"

text \<open>\<^verbatim>\<open>pathSeparatorClause = '\\/'\<close>, pattern text \<^verbatim>\<open>\/\<close>.\<close>

definition pathSeparatorClause :: regex where
  "pathSeparatorClause = Lit CHR ''/''"

text \<open>
  \<^verbatim>\<open>excludedPathCharactersClause = '[^\\0\\s!$`&*()\\[\\]+\'":;]'\<close>, pattern text
  \<^verbatim>\<open>[^\0\s!$`&*()\[\]+'":;]\<close>.
\<close>

definition excludedPathCharacters :: "class_item list" where
  "excludedPathCharacters =
     [CChar (CHR 0x00), CSpace, CChar CHR ''!'', CChar CHR ''$'', CChar (CHR 0x60), CChar CHR ''&'',
      CChar CHR ''*'', CChar CHR ''('', CChar CHR '')'', CChar CHR ''['', CChar CHR '']'',
      CChar CHR ''+'', CChar (CHR 0x27), CChar (CHR 0x22), CChar CHR '':'', CChar CHR '';'']"

definition excludedPathCharactersClause :: regex where
  "excludedPathCharactersClause = NoneOf excludedPathCharacters"

text \<open>
  \<^verbatim>\<open>escapedExcludedPathCharactersClause = '(\\\\s|\\\\!|\\\\$|\\\\`|\\\\&|\\\\*|(|)|\\+)'\<close>,
  pattern text \<^verbatim>\<open>(\\s|\\!|\\$|\\`|\\&|\\*|(|)|\+)\<close>. Read as a pattern, its eight
  alternatives are:
  \<^enum> \<^verbatim>\<open>\\s\<close>: a backslash, then the letter s;
  \<^enum> \<^verbatim>\<open>\\!\<close>: a backslash, then an exclamation mark;
  \<^enum> \<^verbatim>\<open>\\$\<close>: a backslash, then the end-of-input assertion;
  \<^enum> \<^verbatim>\<open>\\`\<close>: a backslash, then a backquote;
  \<^enum> \<^verbatim>\<open>\\&\<close>: a backslash, then an ampersand;
  \<^enum> \<^verbatim>\<open>\\*\<close>: a backslash under the quantifier \<^verbatim>\<open>*\<close>;
  \<^enum> \<^verbatim>\<open>(|)\<close>: a group of two empty alternatives;
  \<^enum> \<^verbatim>\<open>\+\<close>: a plus sign.
\<close>

definition escapedExcludedPathCharactersClause :: regex where
  "escapedExcludedPathCharactersClause =
     Group (alts [seqs [Lit BSL, Lit CHR ''s''],
                  seqs [Lit BSL, Lit CHR ''!''],
                  seqs [Lit BSL, EndOfInput],
                  seqs [Lit BSL, Lit (CHR 0x60)],
                  seqs [Lit BSL, Lit CHR ''&''],
                  Star (Lit BSL),
                  Group (alts [Empty, Empty]),
                  Lit CHR ''+''])"

text \<open>
  \<^verbatim>\<open>new RegExp('(' + pathPrefix + '?(' + pathSeparatorClause + '(' +
  excludedPathCharactersClause + '|' + escapedExcludedPathCharactersClause + ')+)+)')\<close>
\<close>

definition UNIX_LIKE_LOCAL_LINK_REGEX :: regex where
  "UNIX_LIKE_LOCAL_LINK_REGEX =
     Group (seqs [Opt pathPrefix,
                  Plus (Group (seqs [pathSeparatorClause,
                                     Plus (Group (alts [excludedPathCharactersClause,
                                                        escapedExcludedPathCharactersClause]))]))])"

text \<open>\<^verbatim>\<open>winPathPrefix = '([a-zA-Z]:|\\.\\.?|\\~)'\<close>, pattern text \<^verbatim>\<open>([a-zA-Z]:|\.\.?|\~)\<close>.\<close>

definition winPathPrefix :: regex where
  "winPathPrefix =
     Group (alts [seqs [OneOf [CRange CHR ''a'' CHR ''z'', CRange CHR ''A'' CHR ''Z''], Lit CHR '':''],
                  seqs [Lit CHR ''.'', Opt (Lit CHR ''.'')],
                  Lit CHR ''~''])"

text \<open>\<^verbatim>\<open>winPathSeparatorClause = '(\\\\|\\/)'\<close>, pattern text \<^verbatim>\<open>(\\|\/)\<close>.\<close>

definition winPathSeparatorClause :: regex where
  "winPathSeparatorClause = Group (alts [Lit BSL, Lit CHR ''/''])"

text \<open>
  \<^verbatim>\<open>winExcludedPathCharactersClause = '[^\\0<>\\?\\|\\/\\s!$`&*()\\[\\]+\'":;]'\<close>,
  pattern text \<^verbatim>\<open>[^\0<>\?\|\/\s!$`&*()\[\]+'":;]\<close>.
\<close>

definition winExcludedPathCharacters :: "class_item list" where
  "winExcludedPathCharacters =
     [CChar (CHR 0x00), CChar CHR ''<'', CChar CHR ''>'', CChar CHR ''?'', CChar CHR ''|'',
      CChar CHR ''/'', CSpace, CChar CHR ''!'', CChar CHR ''$'', CChar (CHR 0x60), CChar CHR ''&'',
      CChar CHR ''*'', CChar CHR ''('', CChar CHR '')'', CChar CHR ''['', CChar CHR '']'',
      CChar CHR ''+'', CChar (CHR 0x27), CChar (CHR 0x22), CChar CHR '':'', CChar CHR '';'']"

definition winExcludedPathCharactersClause :: regex where
  "winExcludedPathCharactersClause = NoneOf winExcludedPathCharacters"

text \<open>
  \<^verbatim>\<open>new RegExp('(' + winPathPrefix + '?(' + winPathSeparatorClause + '(' +
  winExcludedPathCharactersClause + ')+)+)')\<close>
\<close>

definition WINDOWS_LOCAL_LINK_REGEX :: regex where
  "WINDOWS_LOCAL_LINK_REGEX =
     Group (seqs [Opt winPathPrefix,
                  Plus (Group (seqs [winPathSeparatorClause,
                                     Plus (Group winExcludedPathCharactersClause)]))])"

section \<open>Collaborators of the link handler\<close>

text \<open>
  \<^verbatim>\<open>platform.Platform\<close> (\<^verbatim>\<open>vs/base/common/platform\<close>). The source names the
  members \<^verbatim>\<open>Mac\<close> and \<^verbatim>\<open>Windows\<close>; every other member takes the other branch
  of each comparison.
\<close>

datatype Platform = Web | Mac | Linux | Windows

text \<open>
  A settled \<^verbatim>\<open>TPromise\<close>: fulfilled with a value, or rejected with an error.
  \<^verbatim>\<open>p.then(f)\<close> with no error callback runs \<open>f\<close> on the value and passes a
  rejection on.
\<close>

datatype 'a TPromise = Fulfilled 'a | Rejected string

fun then_promise :: "'a TPromise \<Rightarrow> ('a \<Rightarrow> 'b TPromise) \<Rightarrow> 'b TPromise" where
  "then_promise (Fulfilled v) f = f v"
| "then_promise (Rejected e) f = Rejected e"

text \<open>
  What \<^verbatim>\<open>_resolvePath\<close> can settle with: \<^verbatim>\<open>undefined\<close> (from
  \<^verbatim>\<open>TPromise.as(void 0)\<close>), \<^verbatim>\<open>null\<close>, or a string. Callers only test the value for
  truthiness; the empty string is falsy.
\<close>

datatype resolved = Undefined | Null | Str string

fun truthy :: "resolved \<Rightarrow> bool" where
  "truthy Undefined = False"
| "truthy Null = False"
| "truthy (Str s) = (s \<noteq> [])"

text \<open>
  The file system, as one \<^verbatim>\<open>stat\<close> call sees a path: a regular file, something else
  or nothing at all, or a failing call (permission, I/O error).
\<close>

datatype stat_outcome = IsFile | NotAFile | StatFails



subsection \<open>Node's \<^verbatim>\<open>path.join\<close> on a POSIX host\<close>

text \<open>
  \<^verbatim>\<open>path\<close> is a module of the Node runtime, not of the repository. The resolver takes
  its \<^verbatim>\<open>join\<close> as a parameter; \<open>posix_join\<close> is \<^verbatim>\<open>path.posix.join\<close> of two
  arguments as Node documents it: zero-length arguments are ignored, the rest are joined by
  \<^verbatim>\<open>/\<close>, and the result is normalized (\<^verbatim>\<open>.\<close> and empty segments dropped,
  \<^verbatim>\<open>..\<close> resolved against the segment before it, a trailing separator kept, and
  \<^verbatim>\<open>.\<close> returned for an empty result).
\<close>

fun split_on :: "char \<Rightarrow> string \<Rightarrow> string list" where
  "split_on c [] = [[]]"
| "split_on c (x # xs) =
     (if x = c then [] # split_on c xs
      else (case split_on c xs of [] \<Rightarrow> [[x]] | seg # segs \<Rightarrow> (x # seg) # segs))"

fun join_with :: "char \<Rightarrow> string list \<Rightarrow> string" where
  "join_with c [] = []"
| "join_with c [seg] = seg"
| "join_with c (seg # segs) = seg @ c # join_with c segs"

text \<open>\<open>res\<close> holds the segments kept so far, the last one first.\<close>

fun normalizeSegments :: "bool \<Rightarrow> string list \<Rightarrow> string list \<Rightarrow> string list" where
  "normalizeSegments allowAboveRoot res [] = rev res"
| "normalizeSegments allowAboveRoot res (seg # segs) =
     (if seg = [] \<or> seg = ''.'' then normalizeSegments allowAboveRoot res segs
      else if seg = ''..'' then
        (case res of
           [] \<Rightarrow> normalizeSegments allowAboveRoot (if allowAboveRoot then [''..''] else []) segs
         | seg0 # below \<Rightarrow>
             if seg0 = ''..'' then
               normalizeSegments allowAboveRoot (if allowAboveRoot then ''..'' # res else res) segs
             else normalizeSegments allowAboveRoot below segs)
      else normalizeSegments allowAboveRoot (seg # res) segs)"

definition posix_normalize :: "string \<Rightarrow> string" where
  "posix_normalize path =
     (if path = [] then ''.''
      else
        let isAbsolute = (hd path = CHR ''/'');
            trailingSeparator = (last path = CHR ''/'');
            p = join_with CHR ''/'' (normalizeSegments (\<not> isAbsolute) [] (split_on CHR ''/'' path));
            p = (if p = [] \<and> \<not> isAbsolute then ''.'' else p);
            p = (if p \<noteq> [] \<and> trailingSeparator then p @ ''/'' else p)
        in if isAbsolute then CHR ''/'' # p else p)"

definition posix_join :: "string \<Rightarrow> string \<Rightarrow> string" where
  "posix_join a b =
     (if a = [] \<and> b = [] then ''.''
      else if a = [] then posix_normalize b
      else if b = [] then posix_normalize a
      else posix_normalize (a @ ''/'' @ b))"

text \<open>
  \<^verbatim>\<open>path.posix.resolve\<close> of one argument, in a process whose working directory is the
  absolute path \<open>cwd\<close>: a relative path is taken from the working directory, the result
  is normalized as an absolute path, and no trailing separator is kept.
\<close>

definition posix_resolve :: "string \<Rightarrow> string \<Rightarrow> string" where
  "posix_resolve cwd p =
     CHR ''/'' #
       join_with CHR ''/''
         (normalizeSegments False []
            (split_on CHR ''/'' (if take 1 p = ''/'' then p else cwd @ ''/'' @ p)))"

subsection \<open>The session's context\<close>

text \<open>
  What the handler reads besides its arguments: the platform given to the constructor,
  the two variables of \<^verbatim>\<open>process.env\<close> (absent, or a string), the workspace
  context service, and the host's \<^verbatim>\<open>path.join\<close>, \<^verbatim>\<open>path.resolve\<close> and
  \<^verbatim>\<open>path.normalize\<close>.

  Modelled from the spec: \<^verbatim>\<open>IWorkspaceContextService\<close> is declared outside the sources.
  The spec gives it as \<^verbatim>\<open>hasActiveWorkspace() -> bool\<close> and
  \<^verbatim>\<open>workspaceRootPath() -> path string\<close>; \<open>hasWorkspace\<close> is the truth value of
  \<^verbatim>\<open>this._contextService.hasWorkspace\<close> as the source tests it, and \<open>workspaceFsPath\<close>
  is \<^verbatim>\<open>this._contextService.getWorkspace().resource.fsPath\<close>.
\<close>

record platformContext =
  platform :: Platform
  HOMEDRIVE :: "string option"
  HOMEPATH :: "string option"
  hasWorkspace :: bool
  workspaceFsPath :: string
  path_join :: "string \<Rightarrow> string \<Rightarrow> string"
  path_resolve :: "string \<Rightarrow> string"
  path_normalize :: "string \<Rightarrow> string"

text \<open>
  The effects the claims speak of, recorded in the order they happen: the paths handed to
  \<^verbatim>\<open>pfs.fileExists\<close>, the paths whose resource was handed to
  \<^verbatim>\<open>this._editorService.openEditor\<close>, and the number of elements that were given
  the tooltip listeners.
\<close>

record world =
  fileExists_calls :: "string list"
  openEditor_calls :: "string list"
  tooltipListeners :: nat

section \<open>The resolver\<close>

text \<open>\<^verbatim>\<open>link.charAt(0)\<close>: the first code unit as a string, the empty string if there is none.\<close>

definition charAt0 :: "string \<Rightarrow> string" where
  "charAt0 s = take 1 s"

text \<open>\<^verbatim>\<open>!process.env.X\<close>: the variable is absent or the empty string.\<close>

fun env_falsy :: "string option \<Rightarrow> bool" where
  "env_falsy None = True"
| "env_falsy (Some v) = (v = [])"

text \<open>A variable inside a template literal or a string concatenation.\<close>

fun env_text :: "string option \<Rightarrow> string" where
  "env_text None = ''undefined''"
| "env_text (Some v) = v"

text \<open>
  A block of \<^verbatim>\<open>_resolvePath\<close> either returns from the function or falls through
  with the current value of \<^verbatim>\<open>link\<close>.
\<close>

datatype flow = Returns resolved | GoesOn string

text \<open>Lines 134 to 140: the body of the Windows branch.\<close>

definition windowsTilde :: "platformContext \<Rightarrow> string \<Rightarrow> flow" where
  "windowsTilde c link =
     (if charAt0 link = ''~'' then
        (if env_falsy (HOMEDRIVE c) \<or> env_falsy (HOMEPATH c) then Returns Undefined
         else GoesOn (env_text (HOMEDRIVE c) @ [BSL] @ (env_text (HOMEPATH c) @ drop 1 link)))
      else GoesOn link)"

text \<open>
  Lines 142 to 149, the body of the \<^verbatim>\<open>else\<close> branch, and lines 151 to 158, after
  the branch: the source has the same statements twice.
\<close>

definition workspaceDot :: "platformContext \<Rightarrow> string \<Rightarrow> flow" where
  "workspaceDot c link =
     (if charAt0 link = ''.'' then
        (if \<not> hasWorkspace c then Returns Undefined
         else GoesOn (path_join c (workspaceFsPath c) link))
      else GoesOn link)"

text \<open>
  Lines 160 to 166. \<open>fileExists\<close> is the \<^verbatim>\<open>pfs.fileExists\<close> collaborator; each call
  is recorded in the world.
\<close>

definition openIfExists ::
  "(string \<Rightarrow> bool TPromise) \<Rightarrow> string \<Rightarrow> world \<Rightarrow> resolved TPromise \<times> world" where
  "openIfExists fileExists link w =
     (then_promise (fileExists link) (\<lambda>isFile. Fulfilled (if \<not> isFile then Null else Str link)),
      w\<lparr>fileExists_calls := fileExists_calls w @ [link]\<rparr>)"

definition resolvePath ::
  "platformContext \<Rightarrow> (string \<Rightarrow> bool TPromise) \<Rightarrow> string \<Rightarrow> world \<Rightarrow> resolved TPromise \<times> world" where
  "resolvePath c fileExists link w =
     (case (if platform c = Windows then windowsTilde c link else workspaceDot c link) of
        Returns v \<Rightarrow> (Fulfilled v, w)
      | GoesOn link1 \<Rightarrow>
          (case workspaceDot c link1 of
             Returns v \<Rightarrow> (Fulfilled v, w)
           | GoesOn link2 \<Rightarrow> openIfExists fileExists link2 w))"

text \<open>
  The resolver the specification's design notes propose: \<^verbatim>\<open>_resolvePath\<close> with the
  re-application after the platform branch (step 3 of the specification's algorithm, lines
  151 to 158) taken out, so that the workspace join is checked once, in the
  \<^verbatim>\<open>else\<close> branch.
\<close>

definition resolvePath_collapsed ::
  "platformContext \<Rightarrow> (string \<Rightarrow> bool TPromise) \<Rightarrow> string \<Rightarrow> world \<Rightarrow> resolved TPromise \<times> world" where
  "resolvePath_collapsed c fileExists link w =
     (case (if platform c = Windows then windowsTilde c link else workspaceDot c link) of
        Returns v \<Rightarrow> (Fulfilled v, w)
      | GoesOn link1 \<Rightarrow> openIfExists fileExists link1 w)"

section \<open>The handler\<close>

text \<open>
  \<^verbatim>\<open>_handleLocalLink\<close>: nothing happens for a falsy resolution; otherwise the editor
  service is asked to open \<^verbatim>\<open>Uri.file(path.normalize(path.resolve(resolvedLink)))\<close>.
  \<open>openEditor\<close> is how the editor service settles the request.
\<close>

definition handleLocalLink ::
  "platformContext \<Rightarrow> (string \<Rightarrow> bool TPromise) \<Rightarrow> (string \<Rightarrow> unit TPromise) \<Rightarrow> string \<Rightarrow> world
     \<Rightarrow> unit TPromise \<times> world" where
  "handleLocalLink c fileExists openEditor link w =
     (case resolvePath c fileExists link w of
        (Rejected e, w1) \<Rightarrow> (Rejected e, w1)
      | (Fulfilled resolvedLink, w1) \<Rightarrow>
          (if \<not> truthy resolvedLink then (Fulfilled (), w1)
           else
             let resource = path_normalize c (path_resolve c (case resolvedLink of Str p \<Rightarrow> p | _ \<Rightarrow> []))
             in (then_promise (openEditor resource) (\<lambda>_. Fulfilled ()),
                 w1\<lparr>openEditor_calls := openEditor_calls w1 @ [resource]\<rparr>)))"

text \<open>
  \<^verbatim>\<open>_validateLocalLink\<close> and \<^verbatim>\<open>_validateWebLink\<close>. The first component is the
  argument the callback is called with, if it is called.
\<close>

definition validateLocalLink ::
  "platformContext \<Rightarrow> (string \<Rightarrow> bool TPromise) \<Rightarrow> string \<Rightarrow> world \<Rightarrow> bool option \<times> world" where
  "validateLocalLink c fileExists link w =
     (case resolvePath c fileExists link w of
        (Rejected e, w1) \<Rightarrow> (None, w1)
      | (Fulfilled resolvedLink, w1) \<Rightarrow>
          (Some (truthy resolvedLink),
           if truthy resolvedLink then w1\<lparr>tooltipListeners := Suc (tooltipListeners w1)\<rparr> else w1))"

definition validateWebLink :: "string \<Rightarrow> world \<Rightarrow> bool option \<times> world" where
  "validateWebLink link w = (Some True, w\<lparr>tooltipListeners := Suc (tooltipListeners w)\<rparr>)"

subsection \<open>Click gating\<close>

text \<open>
  The fields of the \<^verbatim>\<open>MouseEvent\<close> that the wrapper reads or changes;
  \<^verbatim>\<open>preventDefault()\<close> sets \<open>defaultPrevented\<close>.
\<close>

record mouseEvent =
  metaKey :: bool
  ctrlKey :: bool
  defaultPrevented :: bool

text \<open>What a handler returns: \<^verbatim>\<open>boolean | void\<close>.\<close>

datatype handler_result = RBool bool | RVoid

text \<open>
  A handler acts on some state \<open>'s\<close> and returns its result; an
  \<^verbatim>\<open>XtermLinkMatcherHandler\<close> takes the event as well and may change it.
\<close>

type_synonym 's linkHandler = "string \<Rightarrow> 's \<Rightarrow> handler_result \<times> 's"

type_synonym 's xtermLinkMatcherHandler =
  "mouseEvent \<Rightarrow> string \<Rightarrow> 's \<Rightarrow> handler_result \<times> mouseEvent \<times> 's"

definition wrapLinkHandler :: "Platform \<Rightarrow> 's linkHandler \<Rightarrow> 's xtermLinkMatcherHandler" where
  "wrapLinkHandler p handler event uri s =
     (if (if p = Mac then \<not> metaKey event else \<not> ctrlKey event) then
        (RBool False, event\<lparr>defaultPrevented := True\<rparr>, s)
      else (case handler uri s of (r, s') \<Rightarrow> (r, event, s')))"

subsection \<open>Registration\<close>

definition CUSTOM_LINK_PRIORITY :: int where
  "CUSTOM_LINK_PRIORITY = - 1"

definition LOCAL_LINK_PRIORITY :: int where
  "LOCAL_LINK_PRIORITY = - 2"

text \<open>
  Modelled from the spec: the terminal (\<^verbatim>\<open>this._xterm\<close>, typed \<^verbatim>\<open>any\<close>) is not
  among the sources. Following the spec's matcher registry, a registered matcher is its
  pattern, handler and options, the registry holds them in registration order, and
  registering returns an identifier, here the number of matchers registered before.
\<close>

type_synonym validationCallback = "string \<Rightarrow> world \<Rightarrow> bool option \<times> world"

record linkMatcher =
  regex :: regex
  handler :: "world xtermLinkMatcherHandler"
  matchIndex :: "nat option"
  validationCallback :: "validationCallback option"
  priority :: int

record xterm =
  hypertextLinkHandler :: "world xtermLinkMatcherHandler option"
  hypertextValidationCallback :: "validationCallback option"
  linkMatchers :: "linkMatcher list"

definition registerLinkMatcher :: "linkMatcher \<Rightarrow> xterm \<Rightarrow> nat \<times> xterm" where
  "registerLinkMatcher m x = (length (linkMatchers x), x\<lparr>linkMatchers := linkMatchers x @ [m]\<rparr>)"

text \<open>The constructor, lines 38 to 49.\<close>

definition TerminalLinkHandler_constructor :: "platformContext \<Rightarrow> xterm \<Rightarrow> xterm" where
  "TerminalLinkHandler_constructor c x =
     x\<lparr>hypertextLinkHandler := Some (wrapLinkHandler (platform c) (\<lambda>uri w. (RBool True, w))),
       hypertextValidationCallback := Some validateWebLink\<rparr>"

definition registerCustomLinkHandler ::
  "platformContext \<Rightarrow> regex \<Rightarrow> world linkHandler \<Rightarrow> nat option \<Rightarrow> validationCallback option
     \<Rightarrow> xterm \<Rightarrow> nat \<times> xterm" where
  "registerCustomLinkHandler c re h mi vc x =
     registerLinkMatcher
       \<lparr>regex = re, handler = wrapLinkHandler (platform c) h, matchIndex = mi,
        validationCallback = vc, priority = CUSTOM_LINK_PRIORITY\<rparr> x"

definition localLinkRegex :: "platformContext \<Rightarrow> regex" where
  "localLinkRegex c =
     (if platform c = Windows then WINDOWS_LOCAL_LINK_REGEX else UNIX_LIKE_LOCAL_LINK_REGEX)"

definition registerLocalLinkHandler ::
  "platformContext \<Rightarrow> (string \<Rightarrow> bool TPromise) \<Rightarrow> (string \<Rightarrow> unit TPromise) \<Rightarrow> xterm \<Rightarrow> nat \<times> xterm" where
  "registerLocalLinkHandler c fileExists openEditor x =
     (let wrappedHandler =
            wrapLinkHandler (platform c)
              (\<lambda>url w. (RVoid, snd (handleLocalLink c fileExists openEditor url w)))
      in registerLinkMatcher
           \<lparr>regex = localLinkRegex c, handler = wrappedHandler, matchIndex = Some 1,
            validationCallback = Some (validateLocalLink c fileExists),
            priority = LOCAL_LINK_PRIORITY\<rparr> x)"

section \<open>Example sessions\<close>

text \<open>
  Concrete values for the closed theorems below. \<open>posixSession\<close> is a session on a POSIX
  host with the workspace root \<^verbatim>\<open>/home/u/project\<close>, in a process whose working
  directory is \<^verbatim>\<open>/home/u\<close>; the platform is the constructor's argument and does
  not depend on the host.
\<close>

definition emptyWorld :: world where
  "emptyWorld = \<lparr>fileExists_calls = [], openEditor_calls = [], tooltipListeners = 0\<rparr>"

definition posixSession :: "Platform \<Rightarrow> bool \<Rightarrow> platformContext" where
  "posixSession p ws =
     \<lparr>platform = p, HOMEDRIVE = None, HOMEPATH = None, hasWorkspace = ws,
      workspaceFsPath = ''/home/u/project'', path_join = posix_join,
      path_resolve = posix_resolve ''/home/u'', path_normalize = posix_normalize\<rparr>"

text \<open>A Windows session with \<^verbatim>\<open>HOMEDRIVE=C:\<close> and \<^verbatim>\<open>HOMEPATH=\Users\u\<close>.\<close>

definition windowsHome :: platformContext where
  "windowsHome =
     (posixSession Windows True)
       \<lparr>HOMEDRIVE := Some ''C:'', HOMEPATH := Some (BSL # ''Users'' @ [BSL] @ ''u'')\<rparr>"

text \<open>An existence check that finds exactly one file.\<close>

definition onlyFile :: "string \<Rightarrow> string \<Rightarrow> bool TPromise" where
  "onlyFile p q = Fulfilled (q = p)"



text \<open>A handler that counts its invocations.\<close>

definition countingHandler :: "nat linkHandler" where
  "countingHandler uri n = (RVoid, Suc n)"

definition plainClick :: mouseEvent where
  "plainClick = \<lparr>metaKey = False, ctrlKey = False, defaultPrevented = False\<rparr>"

definition emptyXterm :: xterm where
  "emptyXterm =
     \<lparr>hypertextLinkHandler = None, hypertextValidationCallback = None, linkMatchers = []\<rparr>"

section \<open>Properties of the matcher and of \<^verbatim>\<open>path.join\<close>\<close>

lemma in_concat_map: "t \<in> set (concat (map f xs)) \<longleftrightarrow> (\<exists>m \<in> set xs. t \<in> set (f m))"
  by auto

text \<open>
  Every remainder the matcher returns is a suffix of its input: the matcher only moves
  forward, which is what lets the empty check compare lengths.
\<close>

lemma matches_suffix: "t \<in> set (matches r s) \<Longrightarrow> \<exists>u. s = u @ t"
proof (induction r s arbitrary: t rule: matches.induct)
  case (1 c s)
  then show ?case by (cases s) (auto split: if_splits)
next
  case (2 items s)
  then show ?case by (cases s) (auto split: if_splits)
next
  case (3 items s)
  then show ?case by (cases s) (auto split: if_splits)
next
  case (4 s)
  then show ?case by (auto split: if_splits)
next
  case (5 s)
  then show ?case by simp
next
  case (6 r1 r2 s)
  from "6.prems" obtain m where m: "m \<in> set (matches r1 s)" "t \<in> set (matches r2 m)"
    unfolding matches.simps(6)[of r1 r2 s] in_concat_map by blast
  from "6.IH"(1)[OF m(1)] obtain u where "s = u @ m" by blast
  moreover from "6.IH"(2)[OF m] obtain v where "m = v @ t" by blast
  ultimately have "s = (u @ v) @ t" by simp
  then show ?case by blast
next
  case (7 r1 r2 s)
  from "7.prems" have "t \<in> set (matches r1 s) \<or> t \<in> set (matches r2 s)"
    unfolding matches.simps(7)[of r1 r2 s] set_append by blast
  then show ?case using "7.IH" by blast
next
  case (8 r s)
  then show ?case unfolding matches.simps(8)[of r s] by blast
next
  case (9 r s)
  from "9.prems" have "t \<in> set (matches r s) \<or> t = s"
    unfolding matches.simps(9)[of r s] by (simp del: matches.simps) blast
  then show ?case using "9.IH" by blast
next
  case (10 r s)
  show ?case
  proof (cases "t = s")
    case True
    then show ?thesis by simp
  next
    case False
    with "10.prems"
    have "t \<in> set (concat (map (\<lambda>t. if length t < length s then matches (Star r) t else []) (matches r s)))"
      unfolding matches.simps(10)[of r s] by (simp del: matches.simps)
    then obtain m where m0: "m \<in> set (matches r s)"
        "t \<in> set (if length m < length s then matches (Star r) m else [])"
      unfolding in_concat_map by blast
    then have m: "m \<in> set (matches r s)" "length m < length s" "t \<in> set (matches (Star r) m)"
      by (cases "length m < length s"; simp del: matches.simps)+
    from "10.IH"(1)[OF m(1)] obtain u where "s = u @ m" by blast
    moreover from "10.IH"(2)[OF m] obtain v where "m = v @ t" by blast
    ultimately have "s = (u @ v) @ t" by simp
    then show ?thesis by blast
  qed
next
  case (11 r s)
  from "11.prems" obtain m where m: "m \<in> set (matches r s)" "t \<in> set (matches (Star r) m)"
    unfolding matches.simps(11)[of r s] in_concat_map by blast
  from "11.IH"(1)[OF m(1)] obtain u where "s = u @ m" by blast
  moreover from "11.IH"(2)[OF m] obtain v where "m = v @ t" by blast
  ultimately have "s = (u @ v) @ t" by simp
  then show ?case by blast
qed

lemmas unix_pattern_defs =
  exec_def match_here_def UNIX_LIKE_LOCAL_LINK_REGEX_def pathPrefix_def pathSeparatorClause_def
  excludedPathCharactersClause_def escapedExcludedPathCharactersClause_def
  excludedPathCharacters_def class_has_def isWhiteSpace_def

lemmas windows_pattern_defs =
  exec_def match_here_def WINDOWS_LOCAL_LINK_REGEX_def winPathPrefix_def
  winPathSeparatorClause_def winExcludedPathCharactersClause_def winExcludedPathCharacters_def
  class_has_def isWhiteSpace_def

text \<open>
  The tilde inputs on which the two patterns behave as the grammar is described: a bare
  \<^verbatim>\<open>~\<close> matches neither pattern, \<^verbatim>\<open>~/\<close> and \<^verbatim>\<open>~\\<close> alone do not match
  the Windows pattern, and \<^verbatim>\<open>~/a\<close> and \<^verbatim>\<open>~\a\<close> match in full.
\<close>

lemma tilde_inputs:
  "exec UNIX_LIKE_LOCAL_LINK_REGEX ''~'' = None"
  "exec WINDOWS_LOCAL_LINK_REGEX ''~'' = None"
  "exec WINDOWS_LOCAL_LINK_REGEX ''~/'' = None"
  "exec WINDOWS_LOCAL_LINK_REGEX [CHR ''~'', BSL] = None"
  "exec UNIX_LIKE_LOCAL_LINK_REGEX ''~/a'' = Some (0, ''~/a'')"
  "exec WINDOWS_LOCAL_LINK_REGEX ''~/a'' = Some (0, ''~/a'')"
  "exec WINDOWS_LOCAL_LINK_REGEX [CHR ''~'', BSL, CHR ''a''] = Some (0, [CHR ''~'', BSL, CHR ''a''])"
  by (simp_all add: unix_pattern_defs windows_pattern_defs)

lemma posix_join_example: "posix_join ''/home/u/project'' ''./foo'' = ''/home/u/project/foo''"
  by (simp add: posix_join_def posix_normalize_def)

text \<open>Joining onto an absolute path gives an absolute path.\<close>

lemma posix_join_absolute:
  assumes "charAt0 a = ''/''"
  shows "charAt0 (posix_join a b) = ''/''"
proof -
  from assms obtain t where a: "a = CHR ''/'' # t"
    by (cases a) (auto simp: charAt0_def)
  have n: "charAt0 (posix_normalize (CHR ''/'' # u)) = ''/''" for u
    by (simp add: posix_normalize_def charAt0_def Let_def)
  show ?thesis
    unfolding posix_join_def a using n by simp
qed

section \<open>Properties of the resolver\<close>




text \<open>
  On Windows the block after the platform branch is the only check of a leading dot: for
  an input starting with a dot the collapsed resolver hands the input itself to the
  existence check, and \<^verbatim>\<open>_resolvePath\<close> never does (it returns at once without a
  workspace, and checks the joined path with one).
\<close>

lemma collapsed_resolver_differs_on_dot:
  assumes "platform c = Windows" and "charAt0 link = ''.''"
    and "hasWorkspace c \<longrightarrow> path_join c = posix_join \<and> charAt0 (workspaceFsPath c) = ''/''"
  shows "fileExists_calls (snd (resolvePath_collapsed c fileExists link w)) = fileExists_calls w @ [link]"
    and "fileExists_calls (snd (resolvePath c fileExists link w)) \<noteq> fileExists_calls w @ [link]"
proof -
  from assms(1,2) show "fileExists_calls (snd (resolvePath_collapsed c fileExists link w))
      = fileExists_calls w @ [link]"
    by (simp add: resolvePath_collapsed_def windowsTilde_def openIfExists_def)
  show "fileExists_calls (snd (resolvePath c fileExists link w)) \<noteq> fileExists_calls w @ [link]"
  proof (cases "hasWorkspace c")
    case False
    with assms(1,2) show ?thesis
      by (simp add: resolvePath_def windowsTilde_def workspaceDot_def)
  next
    case True
    with assms(3) have j: "path_join c = posix_join" "charAt0 (workspaceFsPath c) = ''/''"
      by simp_all
    have a: "charAt0 (posix_join (workspaceFsPath c) link) = ''/''"
      by (rule posix_join_absolute[OF j(2)])
    with assms(2) have "posix_join (workspaceFsPath c) link \<noteq> link"
      by auto
    with True assms(1,2) j a show ?thesis
      by (simp add: resolvePath_def windowsTilde_def workspaceDot_def openIfExists_def)
  qed
qed

section \<open>The claims\<close>

subsection \<open>The local-path patterns\<close>

text \<open>
  C1. The claim: a match of the Unix-like pattern never contains an unescaped character of
  the exclusion set, and a backslash-escaped one inside the token is kept in the match.
  The pattern does neither. The last alternative of
  \<open>escapedExcludedPathCharactersClause\<close> is a bare plus sign, so \<^verbatim>\<open>/a+b\<close> is
  matched in full, with its unescaped \<^verbatim>\<open>+\<close>. A backslash is itself a path character
  and the alternation takes it first, so the match of \<^verbatim>\<open>/a\!b\<close> and of
  \<^verbatim>\<open>/a\(b\<close> stops after the backslash: the escaped character is cut off.
\<close>

theorem unix_pattern_escapes_evaluated:
  "exec UNIX_LIKE_LOCAL_LINK_REGEX ''/a+b'' = Some (0, ''/a+b'')
   \<and> exec UNIX_LIKE_LOCAL_LINK_REGEX (''/a'' @ [BSL] @ ''!b'') = Some (0, ''/a'' @ [BSL])
   \<and> exec UNIX_LIKE_LOCAL_LINK_REGEX (''/a'' @ [BSL] @ ''(b'') = Some (0, ''/a'' @ [BSL])"
  by (simp add: unix_pattern_defs)

text \<open>
  C3. The claim: both patterns only match a separator that is followed by at least one
  path character, so that \<^verbatim>\<open>~/\<close> alone is never a match. The Unix-like pattern
  matches \<^verbatim>\<open>~/\<close> and a lone \<^verbatim>\<open>/\<close>: the alternatives \<^verbatim>\<open>\\*\<close> and
  \<^verbatim>\<open>(|)\<close> of \<open>escapedExcludedPathCharactersClause\<close> match the empty string, and
  the first iteration of \<^verbatim>\<open>+\<close> may be empty. (\<open>tilde_inputs\<close> has the inputs on
  which the claim holds.)
\<close>

theorem unix_pattern_matches_bare_separator:
  "exec UNIX_LIKE_LOCAL_LINK_REGEX ''~/'' = Some (0, ''~/'')
   \<and> exec UNIX_LIKE_LOCAL_LINK_REGEX ''/'' = Some (0, ''/'')"
  by (simp add: unix_pattern_defs)

subsection \<open>Resolution\<close>

text \<open>
  C2. The claim: on Windows, with both variables present, \<^verbatim>\<open>~\<close> is replaced by
  HOMEDRIVE + HOMEPATH, and \<^verbatim>\<open>~/foo\<close> with \<^verbatim>\<open>C:\<close> and \<^verbatim>\<open>\Users\u\<close>
  gives exactly \<^verbatim>\<open>C:\Users\u\foo\<close>. The source puts a backslash between the two
  variables and leaves the remainder as it is: the path handed to the existence check is
  \<^verbatim>\<open>C:\\Users\u/foo\<close>.
\<close>

theorem windows_tilde_counterexample:
  "fileExists_calls (snd (resolvePath windowsHome (onlyFile []) ''~/foo'' emptyWorld))
     \<noteq> [''C:'' @ [BSL] @ ''Users'' @ [BSL] @ ''u'' @ [BSL] @ ''foo'']"
  by (simp add: resolvePath_def windowsTilde_def workspaceDot_def openIfExists_def charAt0_def
      windowsHome_def posixSession_def emptyWorld_def)

text \<open>
  C2, amended. On Windows, when HOMEDRIVE and HOMEPATH are both present and not empty and
  HOMEDRIVE does not start with a dot, a string starting with \<^verbatim>\<open>~\<close> has the
  \<^verbatim>\<open>~\<close> replaced by HOMEDRIVE, a backslash and HOMEPATH, the remainder is kept
  unchanged, and the result is the one path handed to the existence check.
\<close>

theorem windows_tilde_candidate:
  assumes "platform c = Windows" and "charAt0 link = ''~''"
    and "HOMEDRIVE c = Some d" and "HOMEPATH c = Some p"
    and "d \<noteq> []" and "p \<noteq> []" and "charAt0 d \<noteq> ''.''"
  shows "fileExists_calls (snd (resolvePath c fileExists link w))
           = fileExists_calls w @ [d @ [BSL] @ p @ drop 1 link]"
proof -
  from assms(5,7) have "charAt0 (d @ BSL # p @ drop 1 link) \<noteq> ''.''"
    by (cases d) (auto simp: charAt0_def)
  with assms show ?thesis
    by (simp add: resolvePath_def windowsTilde_def workspaceDot_def openIfExists_def)
qed

theorem windows_tilde_candidate_witness:
  "fileExists_calls (snd (resolvePath windowsHome (onlyFile []) ''~/foo'' emptyWorld))
     = [''C:'' @ [BSL, BSL] @ ''Users'' @ [BSL] @ ''u/foo'']"
  using windows_tilde_candidate
    [of windowsHome "''~/foo''" "''C:''" "BSL # ''Users'' @ [BSL] @ ''u''" "onlyFile []" emptyWorld]
  by (simp add: windowsHome_def posixSession_def emptyWorld_def charAt0_def)

text \<open>
  C4. When a dot-relative path is resolved with no workspace open, or a tilde path is
  resolved on Windows with HOMEDRIVE or HOMEPATH missing (absent or empty), the outcome is
  \<^verbatim>\<open>undefined\<close> and the world is unchanged: the existence check is not called,
  whatever it would answer.
\<close>

theorem resolvePath_unmet_precondition:
  assumes "(charAt0 link = ''.'' \<and> \<not> hasWorkspace c)
         \<or> (platform c = Windows \<and> charAt0 link = ''~''
              \<and> (env_falsy (HOMEDRIVE c) \<or> env_falsy (HOMEPATH c)))"
  shows "resolvePath c fileExists link w = (Fulfilled Undefined, w)"
  using assms by (auto simp: resolvePath_def windowsTilde_def workspaceDot_def)

theorem resolvePath_unmet_precondition_witness:
  "resolvePath (posixSession Linux False) (onlyFile ''/home/u/project/foo'') ''./foo'' emptyWorld
     = (Fulfilled Undefined, emptyWorld)
   \<and> resolvePath (posixSession Windows False) (onlyFile ''./foo'') ''../foo'' emptyWorld
     = (Fulfilled Undefined, emptyWorld)
   \<and> resolvePath (windowsHome\<lparr>HOMEPATH := None\<rparr>) (onlyFile ''~/foo'') ''~/foo'' emptyWorld
     = (Fulfilled Undefined, emptyWorld)"
  using resolvePath_unmet_precondition
      [of "''./foo''" "posixSession Linux False" "onlyFile ''/home/u/project/foo''" emptyWorld]
    resolvePath_unmet_precondition
      [of "''../foo''" "posixSession Windows False" "onlyFile ''./foo''" emptyWorld]
    resolvePath_unmet_precondition
      [of "''~/foo''" "windowsHome\<lparr>HOMEPATH := None\<rparr>" "onlyFile ''~/foo''" emptyWorld]
  by (simp add: posixSession_def windowsHome_def charAt0_def)



text \<open>
  C8. On a platform other than Windows, with a workspace open at
  \<^verbatim>\<open>/home/u/project\<close> and the POSIX \<^verbatim>\<open>path.join\<close>, resolving \<^verbatim>\<open>./foo\<close>
  hands \<^verbatim>\<open>/home/u/project/foo\<close>, and nothing else, to the existence check.
\<close>

theorem resolvePath_dot_relative:
  assumes "platform c \<noteq> Windows" and "hasWorkspace c"
    and "workspaceFsPath c = ''/home/u/project''" and "path_join c = posix_join"
  shows "fileExists_calls (snd (resolvePath c fileExists ''./foo'' w))
           = fileExists_calls w @ [''/home/u/project/foo'']"
  using assms
  by (simp add: resolvePath_def workspaceDot_def openIfExists_def charAt0_def posix_join_example)

theorem resolvePath_dot_relative_witness:
  "fileExists_calls (snd (resolvePath (posixSession Linux True) (onlyFile []) ''./foo'' emptyWorld))
     = [''/home/u/project/foo'']"
  using resolvePath_dot_relative [of "posixSession Linux True" "onlyFile []" emptyWorld]
  by (simp add: posixSession_def emptyWorld_def)




text \<open>
  C10. On a platform other than Windows, a string starting with \<^verbatim>\<open>~\<close> is handed to
  the existence check as it is, and that is the only check. The resolution is fulfilled
  with a string exactly when the check answers true for the unexpanded string, and that
  string is the input.
\<close>

theorem unix_tilde_verbatim:
  assumes "platform c \<noteq> Windows" and "charAt0 link = ''~''"
  shows "fileExists_calls (snd (resolvePath c fileExists link w)) = fileExists_calls w @ [link]
     \<and> (fst (resolvePath c fileExists link w) = Fulfilled (Str link)
          \<longleftrightarrow> fileExists link = Fulfilled True)
     \<and> (\<forall>p. fst (resolvePath c fileExists link w) = Fulfilled (Str p) \<longrightarrow> p = link)"
  using assms
  by (cases "fileExists link") (auto simp: resolvePath_def workspaceDot_def openIfExists_def)

theorem unix_tilde_verbatim_witness:
  "fileExists_calls (snd (resolvePath (posixSession Mac True) (onlyFile ''/home/u/foo'') ''~/foo''
       emptyWorld)) = [''~/foo'']
   \<and> fst (resolvePath (posixSession Mac True) (onlyFile ''/home/u/foo'') ''~/foo'' emptyWorld)
       = Fulfilled Null
   \<and> fst (resolvePath (posixSession Mac True) (onlyFile ''~/foo'') ''~/foo'' emptyWorld)
       = Fulfilled (Str ''~/foo'')"
  using unix_tilde_verbatim
      [of "posixSession Mac True" "''~/foo''" "onlyFile ''/home/u/foo''" emptyWorld]
    unix_tilde_verbatim [of "posixSession Mac True" "''~/foo''" "onlyFile ''~/foo''" emptyWorld]
  by (simp add: resolvePath_def workspaceDot_def openIfExists_def charAt0_def posixSession_def
      emptyWorld_def onlyFile_def)

subsection \<open>The handler\<close>

text \<open>
  C6. A pointer event without the platform's modifier key (\<open>metaKey\<close> on Mac,
  \<open>ctrlKey\<close> on every other platform) makes a wrapped handler return \<^verbatim>\<open>false\<close>
  with the event's default prevented and the state untouched, whatever the underlying
  handler is: it is not invoked. The hypertext handler set by the constructor, a custom
  handler and the local-link handler are all registered wrapped, and behave so.
\<close>

theorem click_without_modifier:
  assumes "if platform c = Mac then \<not> metaKey ev else \<not> ctrlKey ev"
  shows "wrapLinkHandler (platform c) h ev uri s = (RBool False, ev\<lparr>defaultPrevented := True\<rparr>, s)
    \<and> (\<exists>g. hypertextLinkHandler (TerminalLinkHandler_constructor c x) = Some g
           \<and> g ev uri w = (RBool False, ev\<lparr>defaultPrevented := True\<rparr>, w))
    \<and> handler (last (linkMatchers (snd (registerCustomLinkHandler c re hc mi vc x)))) ev uri w
        = (RBool False, ev\<lparr>defaultPrevented := True\<rparr>, w)
    \<and> handler (last (linkMatchers (snd (registerLocalLinkHandler c fileExists openEditor x))))
          ev uri w
        = (RBool False, ev\<lparr>defaultPrevented := True\<rparr>, w)"
  using assms
  by (simp add: wrapLinkHandler_def TerminalLinkHandler_constructor_def
      registerCustomLinkHandler_def registerLocalLinkHandler_def registerLinkMatcher_def)

theorem click_without_modifier_witness:
  "wrapLinkHandler Linux countingHandler plainClick ''/etc/hosts'' 0
     = (RBool False, plainClick\<lparr>defaultPrevented := True\<rparr>, 0)
   \<and> wrapLinkHandler Mac countingHandler (plainClick\<lparr>ctrlKey := True\<rparr>) ''/etc/hosts'' 0
     = (RBool False, plainClick\<lparr>ctrlKey := True, defaultPrevented := True\<rparr>, 0)
   \<and> wrapLinkHandler Linux countingHandler (plainClick\<lparr>ctrlKey := True\<rparr>) ''/etc/hosts'' 0
     = (RVoid, plainClick\<lparr>ctrlKey := True\<rparr>, 1)"
  using click_without_modifier
      [of "posixSession Linux True" plainClick countingHandler "''/etc/hosts''" 0]
    click_without_modifier
      [of "posixSession Mac True" "plainClick\<lparr>ctrlKey := True\<rparr>" countingHandler "''/etc/hosts''" 0]
  by (simp add: posixSession_def plainClick_def wrapLinkHandler_def countingHandler_def)

text \<open>
  C7. The claim: constructing the handler registers the local-path matcher as well as the
  hypertext handler, and no further call is needed. After the constructor alone the
  terminal has no link matcher.
\<close>

theorem constructor_counterexample:
  "linkMatchers (TerminalLinkHandler_constructor (posixSession Linux True) emptyXterm) = []"
  by (simp add: TerminalLinkHandler_constructor_def emptyXterm_def)

text \<open>
  C7, amended. The constructor sets the wrapped hypertext handler and its validation
  callback (\<^verbatim>\<open>_validateWebLink\<close>, which accepts every link) and leaves the link
  matchers as they are; the local-path matcher is registered by a separate call of
  \<^verbatim>\<open>registerLocalLinkHandler\<close>, which adds exactly one matcher: the platform's
  pattern (the Windows pattern on Windows, the Unix-like one elsewhere), the wrapped
  local-link handler, match index 1, \<^verbatim>\<open>_validateLocalLink\<close> as validation callback
  and the local-link priority -2.
\<close>

theorem local_matcher_registered_separately:
  "linkMatchers (TerminalLinkHandler_constructor c x) = linkMatchers x
   \<and> hypertextLinkHandler (TerminalLinkHandler_constructor c x)
       = Some (wrapLinkHandler (platform c) (\<lambda>uri w. (RBool True, w)))
   \<and> hypertextValidationCallback (TerminalLinkHandler_constructor c x) = Some validateWebLink
   \<and> fst (validateWebLink uri w) = Some True
   \<and> linkMatchers (snd (registerLocalLinkHandler c fileExists openEditor
                            (TerminalLinkHandler_constructor c x)))
      = linkMatchers x
        @ [\<lparr>regex = (if platform c = Windows then WINDOWS_LOCAL_LINK_REGEX
                     else UNIX_LIKE_LOCAL_LINK_REGEX),
            handler = wrapLinkHandler (platform c)
                        (\<lambda>url w. (RVoid, snd (handleLocalLink c fileExists openEditor url w))),
            matchIndex = Some 1,
            validationCallback = Some (validateLocalLink c fileExists),
            priority = - 2\<rparr>]
   \<and> hypertextLinkHandler (snd (registerLocalLinkHandler c fileExists openEditor
                                    (TerminalLinkHandler_constructor c x)))
       = hypertextLinkHandler (TerminalLinkHandler_constructor c x)
   \<and> hypertextValidationCallback (snd (registerLocalLinkHandler c fileExists openEditor
                                           (TerminalLinkHandler_constructor c x)))
       = hypertextValidationCallback (TerminalLinkHandler_constructor c x)"
  by (simp add: TerminalLinkHandler_constructor_def registerLocalLinkHandler_def
      registerLinkMatcher_def localLinkRegex_def LOCAL_LINK_PRIORITY_def validateWebLink_def)

end
